theory Spec2Isabelle
  imports Complex_Main "HOL-Library.Option_ord" "HOL-Library.List_Lexorder" "HOL-Library.Char_ord"
begin

section \<open>Errors\<close>

text \<open>
  The exceptions that the code of \<^verbatim>\<open>monitor/db.py\<close> can raise or let through.
  A call returns \<open>Inl e\<close> where the Python raises \<open>e\<close>.
\<close>

datatype error =
    OperationalError string
  | ProgrammingError string
  | IntegrityError string
  | IndexError
  | ValueError string
  | OverflowError string
  | ConnectionError string

section \<open>The SQLite database behind \<^verbatim>\<open>db_conn\<close>\<close>

text \<open>
  Every column of the tables used here is declared \<^verbatim>\<open>text\<close>, and every value the code
  binds is a Python \<^verbatim>\<open>str\<close>: a row is a list of strings. A table keeps its column names,
  its primary key column (if one is declared) and its rows in insertion order.
\<close>

type_synonym row = "string list"

record table =
  columns :: "string list"
  primary_key :: "string option"
  rows :: "row list"

type_synonym database = "string \<rightharpoonup> table"

text \<open>
  A statement reaches SQLite as text. The text is kept here as the list of its lexical
  tokens, in the order of the source's string: a word (keyword or identifier), a decimal
  number (an interpolated Python \<^verbatim>\<open>int\<close>), \<^verbatim>\<open>*\<close>, \<^verbatim>\<open>(\<close>, \<^verbatim>\<open>)\<close>, \<^verbatim>\<open>,\<close> and the
  placeholder \<^verbatim>\<open>?\<close>.
\<close>

datatype sql_token = Word string | Number int | Star | LParen | RParen | Comma | QMark

datatype statement =
    DropTableIfExists string
  | CreateTable string "string list" "string option"
  | DeleteFrom string
  | ReplaceInto string nat
  | SelectAll string
  | SelectOrderByDatetimeDescLimit string string int

definition syntax_error :: "error + 'a" where
  "syntax_error = Inl (OperationalError ''syntax error'')"

text \<open>Column definitions of \<^verbatim>\<open>CREATE TABLE\<close>: \<^verbatim>\<open>name type [primary key]\<close>, comma separated.\<close>

fun split_commas :: "sql_token list \<Rightarrow> sql_token list list" where
  "split_commas [] = [[]]"
| "split_commas (Comma # ts) = [] # split_commas ts"
| "split_commas (t # ts) =
     (case split_commas ts of [] \<Rightarrow> [[t]] | g # gs \<Rightarrow> (t # g) # gs)"

fun column_name :: "sql_token list \<Rightarrow> string option" where
  "column_name (Word c # Word ty # _) = Some c"
| "column_name _ = None"

fun is_primary_key :: "sql_token list \<Rightarrow> bool" where
  "is_primary_key [Word c, Word ty, Word p, Word k] = (p = ''primary'' \<and> k = ''key'')"
| "is_primary_key _ = False"

fun well_formed_column :: "sql_token list \<Rightarrow> bool" where
  "well_formed_column [Word c, Word ty] = True"
| "well_formed_column [Word c, Word ty, Word p, Word k] = (p = ''primary'' \<and> k = ''key'')"
| "well_formed_column _ = False"

definition parse_columns :: "sql_token list \<Rightarrow> error + (string list \<times> string option)" where
  "parse_columns ts =
     (case ts of
        LParen # rest \<Rightarrow>
          (if rest \<noteq> [] \<and> last rest = RParen then
             (let defs = split_commas (butlast rest) in
              if list_all well_formed_column defs then
                Inr (map (\<lambda>d. the (column_name d)) defs,
                     (case filter is_primary_key defs of
                        [] \<Rightarrow> None
                      | d # _ \<Rightarrow> column_name d))
              else syntax_error)
           else syntax_error)
      | _ \<Rightarrow> syntax_error)"

text \<open>The placeholders of \<^verbatim>\<open>VALUES(?,?,...)\<close>: their number, or a syntax error.\<close>

fun count_placeholders :: "sql_token list \<Rightarrow> nat option" where
  "count_placeholders [QMark, RParen] = Some 1"
| "count_placeholders (QMark # Comma # ts) = map_option Suc (count_placeholders ts)"
| "count_placeholders _ = None"

text \<open>
  The statement forms this program sends. Anything else, in particular a misspelt
  keyword, is what SQLite rejects with \<^verbatim>\<open>sqlite3.OperationalError\<close> (a syntax error).
\<close>

fun parse_sql :: "sql_token list \<Rightarrow> error + statement" where
  "parse_sql (Word k1 # Word k2 # ts) =
     (if k1 = ''DROP'' \<and> k2 = ''TABLE'' then
        (case ts of
           [Word a, Word b, Word t] \<Rightarrow>
             (if a = ''IF'' \<and> b = ''EXISTS'' then Inr (DropTableIfExists t) else syntax_error)
         | _ \<Rightarrow> syntax_error)
      else if k1 = ''CREATE'' \<and> k2 = ''TABLE'' then
        (case ts of
           Word t # cols \<Rightarrow>
             (case parse_columns cols of
                Inl e \<Rightarrow> Inl e
              | Inr (cs, pk) \<Rightarrow> Inr (CreateTable t cs pk))
         | _ \<Rightarrow> syntax_error)
      else if k1 = ''DELETE'' \<and> k2 = ''FROM'' then
        (case ts of [Word t] \<Rightarrow> Inr (DeleteFrom t) | _ \<Rightarrow> syntax_error)
      else if k1 = ''REPLACE'' \<and> k2 = ''INTO'' then
        (case ts of
           Word t # Word v # LParen # ps \<Rightarrow>
             (if v = ''VALUES'' then
                (case count_placeholders ps of
                   None \<Rightarrow> syntax_error
                 | Some n \<Rightarrow> Inr (ReplaceInto t n))
              else syntax_error)
         | _ \<Rightarrow> syntax_error)
      else syntax_error)"
| "parse_sql (Word k1 # Star # ts) =
     (if k1 = ''SELECT'' then
        (case ts of
           [Word f, Word t] \<Rightarrow> (if f = ''FROM'' then Inr (SelectAll t) else syntax_error)
         | [Word f, Word t, Word ob, Word by, Word fn, LParen, Word c, RParen,
            Word d, Word l, Number n] \<Rightarrow>
             (if f = ''FROM'' \<and> ob = ''ORDER'' \<and> by = ''BY'' \<and> fn = ''datetime''
                 \<and> d = ''DESC'' \<and> l = ''LIMIT''
              then Inr (SelectOrderByDatetimeDescLimit t c n) else syntax_error)
         | _ \<Rightarrow> syntax_error)
      else syntax_error)"
| "parse_sql _ = syntax_error"

text \<open>
  What a statement does to the database, and the rows it yields (with the column names
  of \<^verbatim>\<open>cursor.description\<close>).

  \<^item> \<^verbatim>\<open>REPLACE INTO\<close> on a table with a primary key deletes every row that holds the
    new row's key and then inserts the new row.
  \<^item> \<^verbatim>\<open>ORDER BY datetime(c) DESC\<close> sorts on the value of SQLite's built-in
    \<^verbatim>\<open>datetime\<close> function: a text, or NULL, which is below every text. Rows of equal
    value keep the order of their insertion.
  \<^item> \<^verbatim>\<open>LIMIT n\<close> keeps the first \<open>n\<close> rows; a negative \<open>n\<close> means no limit, and an
    \<open>n\<close> that is no 64-bit integer is a floating point literal to SQLite, which refuses
    it with \<^verbatim>\<open>datatype mismatch\<close> (\<^verbatim>\<open>sqlite3.IntegrityError\<close>).
\<close>

text \<open>
  SQLite's \<^verbatim>\<open>datetime(x)\<close>. The program stores in \<^verbatim>\<open>updated\<close> what maya's \<^verbatim>\<open>rfc3339()\<close>
  writes, \<^verbatim>\<open>YYYY-MM-DDTHH:MM:SS.fZ\<close> with a fraction of the second (one digit; SQLite
  reads any number of them). For such a text, where the date exists in the calendar,
  \<^verbatim>\<open>datetime\<close> answers \<^verbatim>\<open>YYYY-MM-DD HH:MM:SS\<close>: the fraction of the second is dropped.
  What it answers for any other text is the parameter \<open>other\<close>.
\<close>

definition digit_value :: "char \<Rightarrow> nat option" where
  "digit_value c =
     (if CHR ''0'' \<le> c \<and> c \<le> CHR ''9'' then Some (of_char c - 48) else None)"

definition two_digits :: "char \<Rightarrow> char \<Rightarrow> nat option" where
  "two_digits a b =
     (case (digit_value a, digit_value b) of
        (Some x, Some y) \<Rightarrow> Some (10 * x + y)
      | _ \<Rightarrow> None)"

definition days_in_month :: "nat \<Rightarrow> nat \<Rightarrow> nat" where
  "days_in_month y m =
     (if m = 2 then (if y mod 4 = 0 \<and> (y mod 100 \<noteq> 0 \<or> y mod 400 = 0) then 29 else 28)
      else if m = 4 \<or> m = 6 \<or> m = 9 \<or> m = 11 then 30 else 31)"

definition is_rfc3339 :: "string \<Rightarrow> bool" where
  "is_rfc3339 u =
     (22 \<le> length u
      \<and> u ! 4 = CHR ''-'' \<and> u ! 7 = CHR ''-'' \<and> u ! 10 = CHR ''T''
      \<and> u ! 13 = CHR '':'' \<and> u ! 16 = CHR '':'' \<and> u ! 19 = CHR ''.''
      \<and> list_all (\<lambda>c. digit_value c \<noteq> None) (butlast (drop 20 u)) \<and> last u = CHR ''Z''
      \<and> (case (two_digits (u ! 0) (u ! 1), two_digits (u ! 2) (u ! 3),
                 two_digits (u ! 5) (u ! 6), two_digits (u ! 8) (u ! 9),
                 two_digits (u ! 11) (u ! 12), two_digits (u ! 14) (u ! 15),
                 two_digits (u ! 17) (u ! 18)) of
            (Some yh, Some yl, Some m, Some d, Some h, Some mi, Some sec) \<Rightarrow>
              1 \<le> m \<and> m \<le> 12 \<and> 1 \<le> d \<and> d \<le> days_in_month (100 * yh + yl) m
              \<and> h \<le> 23 \<and> mi \<le> 59 \<and> sec \<le> 59
          | _ \<Rightarrow> False))"

definition whole_seconds :: "string \<Rightarrow> string" where
  "whole_seconds u = take 10 u @ '' '' @ take 8 (drop 11 u)"

definition sqlite_datetime :: "(string \<Rightarrow> string option) \<Rightarrow> string \<Rightarrow> string option" where
  "sqlite_datetime other u = (if is_rfc3339 u then Some (whole_seconds u) else other u)"

definition no_such_table :: "string \<Rightarrow> error + 'a" where
  "no_such_table t = Inl (OperationalError (''no such table: '' @ t))"

definition cell :: "table \<Rightarrow> string \<Rightarrow> row \<Rightarrow> string option" where
  "cell t c r = map_of (zip (columns t) r) c"

definition pk_value :: "table \<Rightarrow> row \<Rightarrow> string option" where
  "pk_value t r = (case primary_key t of None \<Rightarrow> None | Some c \<Rightarrow> cell t c r)"

definition replace_row :: "table \<Rightarrow> row \<Rightarrow> table" where
  "replace_row t r =
     (case pk_value t r of
        None \<Rightarrow> t\<lparr>rows := rows t @ [r]\<rparr>
      | Some k \<Rightarrow> t\<lparr>rows := filter (\<lambda>r'. pk_value t r' \<noteq> Some k) (rows t) @ [r]\<rparr>)"

definition limit_rows :: "int \<Rightarrow> 'a list \<Rightarrow> 'a list" where
  "limit_rows n xs = (if n < 0 then xs else take (nat n) xs)"

definition order_desc :: "('a \<Rightarrow> 'k::linorder) \<Rightarrow> 'a list \<Rightarrow> 'a list" where
  "order_desc key xs = rev (sort_key key (rev xs))"

definition order_key ::
  "(string \<Rightarrow> string option) \<Rightarrow> table \<Rightarrow> string \<Rightarrow> row \<Rightarrow> string option"
where
  "order_key other tb c r =
     (case cell tb c r of None \<Rightarrow> None | Some u \<Rightarrow> sqlite_datetime other u)"

definition int64 :: "int \<Rightarrow> bool" where
  "int64 n = (- 9223372036854775808 \<le> n \<and> n \<le> 9223372036854775807)"

type_synonym cursor = "string list \<times> row list"

text \<open>
  The statements that change the database (sent through \<^verbatim>\<open>self.db_conn\<close>), and the
  queries (sent through a connection of the call's own). A query leaves the database
  as it is, and the other statements yield no rows.
\<close>

fun run_statement :: "statement \<Rightarrow> row \<Rightarrow> database \<Rightarrow> error + database" where
  "run_statement (DropTableIfExists t) ps d = Inr (d(t := None))"
| "run_statement (CreateTable t cs pk) ps d =
     (case d t of
        Some _ \<Rightarrow> Inl (OperationalError (''table '' @ t @ '' already exists''))
      | None \<Rightarrow> Inr (d(t \<mapsto> \<lparr>columns = cs, primary_key = pk, rows = []\<rparr>)))"
| "run_statement (DeleteFrom t) ps d =
     (case d t of
        None \<Rightarrow> no_such_table t
      | Some tb \<Rightarrow> Inr (d(t \<mapsto> tb\<lparr>rows := []\<rparr>)))"
| "run_statement (ReplaceInto t n) ps d =
     (case d t of
        None \<Rightarrow> no_such_table t
      | Some tb \<Rightarrow>
          (if n \<noteq> length (columns tb) \<or> length ps \<noteq> n
           then Inl (OperationalError ''wrong number of values'')
           else Inr (d(t \<mapsto> replace_row tb ps))))"
| "run_statement (SelectAll t) ps d =
     (case d t of None \<Rightarrow> no_such_table t | Some tb \<Rightarrow> Inr d)"
| "run_statement (SelectOrderByDatetimeDescLimit t c n) ps d =
     (case d t of
        None \<Rightarrow> no_such_table t
      | Some tb \<Rightarrow>
          (if c \<notin> set (columns tb)
           then Inl (OperationalError (''no such column: '' @ c))
           else if \<not> int64 n then Inl (IntegrityError ''datatype mismatch'')
           else Inr d))"

fun run_query ::
  "(string \<Rightarrow> string option) \<Rightarrow> statement \<Rightarrow> database \<Rightarrow> error + cursor"
where
  "run_query other (SelectAll t) d =
     (case d t of
        None \<Rightarrow> no_such_table t
      | Some tb \<Rightarrow> Inr (columns tb, rows tb))"
| "run_query other (SelectOrderByDatetimeDescLimit t c n) d =
     (case d t of
        None \<Rightarrow> no_such_table t
      | Some tb \<Rightarrow>
          (if c \<notin> set (columns tb)
           then Inl (OperationalError (''no such column: '' @ c))
           else if \<not> int64 n then Inl (IntegrityError ''datatype mismatch'')
           else Inr (columns tb, limit_rows n (order_desc (order_key other tb c) (rows tb)))))"
| "run_query other _ d = Inr ([], [])"

definition execute :: "sql_token list \<Rightarrow> row \<Rightarrow> database \<Rightarrow> error + database" where
  "execute sql ps d =
     (case parse_sql sql of Inl e \<Rightarrow> Inl e | Inr st \<Rightarrow> run_statement st ps d)"

definition execute_query ::
  "(string \<Rightarrow> string option) \<Rightarrow> sql_token list \<Rightarrow> database \<Rightarrow> error + cursor"
where
  "execute_query other sql d =
     (case parse_sql sql of Inl e \<Rightarrow> Inl e | Inr st \<Rightarrow> run_query other st d)"

fun execute_all :: "(sql_token list \<times> row) list \<Rightarrow> database \<Rightarrow> error + database" where
  "execute_all [] d = Inr d"
| "execute_all ((sql, ps) # rest) d =
     (case execute sql ps d of Inl e \<Rightarrow> Inl e | Inr d' \<Rightarrow> execute_all rest d')"

section \<open>The node storage\<close>

text \<open>
  \<^verbatim>\<open>CrawlerNodeStorage\<close> extends \<^verbatim>\<open>SQLiteForgetfulNodeStorage\<close> of the nucypher
  library, which is not part of this repository. Of a storage object the model keeps

  \<^item> \<open>db\<close>: the database in the file at \<^verbatim>\<open>db_filepath\<close>, which the shared connection
    \<^verbatim>\<open>self.db_conn\<close> and every connection opened later on the same path see (a path
    \<^verbatim>\<open>:memory:\<close>, where every connection has a database of its own, is not modelled);
  \<^item> \<open>open_conns\<close>: the handles of the connections that are open. Handle \<open>0\<close> stands for
    the shared \<^verbatim>\<open>self.db_conn\<close>;
  \<^item> \<open>trace\<close>: the connections opened by \<^verbatim>\<open>sqlite3.connect\<close>, queried and closed so
    far, in the order of the calls;
  \<^item> \<open>inherited\<close>: whatever the library class keeps outside the database (the
    certificates among it).

  A method returns its outcome (\<open>Inl\<close> the exception raised) and the storage after it.
  The methods of the library class that the overrides call through \<^verbatim>\<open>super()\<close> are
  parameters of the model.
\<close>

datatype conn_event = Opened nat | Queried nat | Closed nat

record 'b storage =
  db :: database
  open_conns :: "nat list"
  trace :: "conn_event list"
  inherited :: 'b

type_synonym ('a, 'b) outcome = "(error + 'a) \<times> 'b storage"

definition STATE_DB_NAME :: string where
  "STATE_DB_NAME = ''fleet_state''"

text \<open>
  \<^verbatim>\<open>with self.db_conn: ...\<close> runs the statements in one transaction: committed when the
  block ends, rolled back when a statement raises, and the exception goes on.
\<close>

definition with_db_conn :: "(sql_token list \<times> row) list \<Rightarrow> 'b storage \<Rightarrow> (unit, 'b) outcome" where
  "with_db_conn stmts s =
     (case execute_all stmts (db s) of
        Inl e \<Rightarrow> (Inl e, s)
      | Inr d \<Rightarrow> (Inr (), s\<lparr>db := d\<rparr>))"

definition init_db_tables ::
  "('b storage \<Rightarrow> (unit, 'b) outcome) \<Rightarrow> 'b storage \<Rightarrow> (unit, 'b) outcome"
where
  "init_db_tables super_init_db_tables s =
     (case with_db_conn
        [([Word ''DROP'', Word ''TABLE'', Word ''IF'', Word ''EXISTS'', Word STATE_DB_NAME], []),
         ([Word ''CREATE'', Word ''TABLE'', Word STATE_DB_NAME, LParen,
           Word ''nickname'', Word ''text'', Word ''primary'', Word ''key'', Comma,
           Word ''symbol'', Word ''text'', Comma,
           Word ''color_hex'', Word ''text'', Comma,
           Word ''color_name'', Word ''text'', Comma,
           Word ''updated'', Word ''text'', RParen], [])] s
      of
        (Inl e, s') \<Rightarrow> (Inl e, s')
      | (Inr _, s') \<Rightarrow> super_init_db_tables s')"

definition clear ::
  "(bool \<Rightarrow> bool \<Rightarrow> 'b storage \<Rightarrow> (unit, 'b) outcome) \<Rightarrow>
   bool \<Rightarrow> bool \<Rightarrow> 'b storage \<Rightarrow> (unit, 'b) outcome"
where
  "clear super_clear metadata certificates s =
     (if metadata then
        (case with_db_conn [([Word ''DELETE'', Word ''FORM'', Word STATE_DB_NAME], [])] s of
           (Inl e, s') \<Rightarrow> (Inl e, s')
         | (Inr _, s') \<Rightarrow> super_clear metadata certificates s')
      else super_clear metadata certificates s)"

text \<open>
  A fleet state as \<^verbatim>\<open>__write_state_metadata\<close> reads it: the four entries it takes from
  \<^verbatim>\<open>FleetStateTracker.abridged_state_details(state)\<close>, and \<open>updated\<close>, the text
  \<^verbatim>\<open>state.updated.rfc3339()\<close>.
\<close>

record fleet_state =
  nickname :: string
  symbol :: string
  color_hex :: string
  color_name :: string
  updated :: string

definition db_row :: "fleet_state \<Rightarrow> row" where
  "db_row state = [nickname state, symbol state, color_hex state, color_name state, updated state]"

definition write_state_metadata :: "fleet_state \<Rightarrow> 'b storage \<Rightarrow> (unit, 'b) outcome" where
  "write_state_metadata state s =
     with_db_conn
       [([Word ''REPLACE'', Word ''INTO'', Word STATE_DB_NAME, Word ''VALUES'', LParen,
          QMark, Comma, QMark, Comma, QMark, Comma, QMark, Comma, QMark, RParen],
         db_row state)] s"

definition store_state_metadata :: "fleet_state \<Rightarrow> 'b storage \<Rightarrow> (unit, 'b) outcome" where
  "store_state_metadata state s = write_state_metadata state s"

text \<open>A sequence of calls of \<^verbatim>\<open>store_state_metadata\<close>; an exception ends it.\<close>

fun store_states :: "fleet_state list \<Rightarrow> 'b storage \<Rightarrow> (unit, 'b) outcome" where
  "store_states [] s = (Inr (), s)"
| "store_states (state # states) s =
     (case store_state_metadata state s of
        (Inl e, s') \<Rightarrow> (Inl e, s')
      | (Inr _, s') \<Rightarrow> store_states states s')"

text \<open>The fleet state table as \<^verbatim>\<open>init_db_tables\<close> creates it, and what it holds.\<close>

definition state_columns :: "string list" where
  "state_columns = [''nickname'', ''symbol'', ''color_hex'', ''color_name'', ''updated'']"

definition empty_state_table :: table where
  "empty_state_table = \<lparr>columns = state_columns, primary_key = Some ''nickname'', rows = []\<rparr>"

definition state_table_ready :: "'b storage \<Rightarrow> bool" where
  "state_table_ready s =
     (case db s STATE_DB_NAME of
        None \<Rightarrow> False
      | Some tb \<Rightarrow> columns tb = state_columns \<and> primary_key tb = Some ''nickname'')"

definition table_rows :: "string \<Rightarrow> 'b storage \<Rightarrow> row list" where
  "table_rows t s = (case db s t of None \<Rightarrow> [] | Some tb \<Rightarrow> rows tb)"

definition rows_of_nickname :: "string \<Rightarrow> 'b storage \<Rightarrow> row list" where
  "rows_of_nickname n s = filter (\<lambda>r. take 1 r = [n]) (table_rows STATE_DB_NAME s)"

subsection \<open>Reading through a connection of the call's own\<close>

text \<open>
  \<^verbatim>\<open>sqlite3.connect(self._db_filepath)\<close> yields a connection that no one else holds: its
  handle is above \<open>0\<close> (the shared \<^verbatim>\<open>self.db_conn\<close>) and above every open handle.
  A query through a connection takes the parameter \<open>other\<close> of SQLite's \<^verbatim>\<open>datetime\<close>
  with it, whether or not its text uses the function.
\<close>

definition fresh_handle :: "nat list \<Rightarrow> nat" where
  "fresh_handle conns = Suc (fold max conns 0)"

definition sqlite3_connect :: "'b storage \<Rightarrow> nat \<times> 'b storage" where
  "sqlite3_connect s =
     (let h = fresh_handle (open_conns s)
      in (h, s\<lparr>open_conns := h # open_conns s, trace := trace s @ [Opened h]\<rparr>))"

definition conn_close :: "nat \<Rightarrow> 'b storage \<Rightarrow> 'b storage" where
  "conn_close h s = s\<lparr>open_conns := removeAll h (open_conns s), trace := trace s @ [Closed h]\<rparr>"

definition conn_execute ::
  "(string \<Rightarrow> string option) \<Rightarrow> nat \<Rightarrow> sql_token list \<Rightarrow> 'b storage \<Rightarrow> (cursor, 'b) outcome"
where
  "conn_execute other h sql s =
     ((if h \<in> set (open_conns s) then execute_query other sql (db s)
       else Inl (ProgrammingError ''Cannot operate on a closed database.'')),
      s\<lparr>trace := trace s @ [Queried h]\<rparr>)"

text \<open>
  The loops that turn rows into dictionaries. \<^verbatim>\<open>column_names[idx]\<close> raises
  \<^verbatim>\<open>IndexError\<close> past the end of the column names, and so does \<^verbatim>\<open>row[0]\<close> on an empty
  row.
\<close>

fun node_info :: "string list \<Rightarrow> row \<Rightarrow> (string \<rightharpoonup> string) \<Rightarrow> error + (string \<rightharpoonup> string)" where
  "node_info cs [] m = Inr m"
| "node_info [] (v # vs) m = Inl IndexError"
| "node_info (c # cs) (v # vs) m = node_info cs vs (m(c \<mapsto> v))"

fun known_nodes ::
  "string list \<Rightarrow> row list \<Rightarrow> (string \<rightharpoonup> (string \<rightharpoonup> string)) \<Rightarrow>
   error + (string \<rightharpoonup> (string \<rightharpoonup> string))"
where
  "known_nodes cs [] known = Inr known"
| "known_nodes cs (r # rs) known =
     (case r of
        [] \<Rightarrow> Inl IndexError
      | staker_address # _ \<Rightarrow>
          (case node_info cs r Map.empty of
             Inl e \<Rightarrow> Inl e
           | Inr info \<Rightarrow> known_nodes cs rs (known(staker_address \<mapsto> info))))"

text \<open>
  \<open>NODE_DB_NAME\<close> is \<^verbatim>\<open>SQLiteForgetfulNodeStorage.NODE_DB_NAME\<close>, a constant of the
  library class. The \<^verbatim>\<open>finally\<close> clause closes the connection on both ways out.
\<close>

definition get_known_nodes_metadata ::
  "(string \<Rightarrow> string option) \<Rightarrow> string \<Rightarrow> 'b storage \<Rightarrow>
   (string \<rightharpoonup> (string \<rightharpoonup> string), 'b) outcome"
where
  "get_known_nodes_metadata other NODE_DB_NAME s =
     (let (db_conn, s1) = sqlite3_connect s;
          (result, s2) = conn_execute other db_conn
                           [Word ''SELECT'', Star, Word ''FROM'', Word NODE_DB_NAME] s1;
          r = (case result of
                 Inl e \<Rightarrow> Inl e
               | Inr (column_names, rws) \<Rightarrow> known_nodes column_names rws Map.empty)
      in (r, conn_close db_conn s2))"

text \<open>
  \<open>rfc3339_to_rfc2822\<close> is \<^verbatim>\<open>MayaDT.from_rfc3339(x).rfc2822()\<close> of the maya library,
  which raises on a text it cannot parse.
\<close>

fun state_info ::
  "(string \<Rightarrow> error + string) \<Rightarrow> string list \<Rightarrow> row \<Rightarrow> (string \<rightharpoonup> string) \<Rightarrow>
   error + (string \<rightharpoonup> string)"
where
  "state_info rfc3339_to_rfc2822 cs [] m = Inr m"
| "state_info rfc3339_to_rfc2822 [] (v # vs) m = Inl IndexError"
| "state_info rfc3339_to_rfc2822 (c # cs) (v # vs) m =
     (if c = ''updated'' then
        (case rfc3339_to_rfc2822 v of
           Inl e \<Rightarrow> Inl e
         | Inr v' \<Rightarrow> state_info rfc3339_to_rfc2822 cs vs (m(c \<mapsto> v')))
      else state_info rfc3339_to_rfc2822 cs vs (m(c \<mapsto> v)))"

fun states_dict_list ::
  "(string \<Rightarrow> error + string) \<Rightarrow> string list \<Rightarrow> row list \<Rightarrow> error + (string \<rightharpoonup> string) list"
where
  "states_dict_list rfc3339_to_rfc2822 cs [] = Inr []"
| "states_dict_list rfc3339_to_rfc2822 cs (r # rs) =
     (case state_info rfc3339_to_rfc2822 cs r Map.empty of
        Inl e \<Rightarrow> Inl e
      | Inr info \<Rightarrow>
          (case states_dict_list rfc3339_to_rfc2822 cs rs of
             Inl e \<Rightarrow> Inl e
           | Inr infos \<Rightarrow> Inr (info # infos)))"

text \<open>
  The table read is \<^verbatim>\<open>SQLiteForgetfulNodeStorage.STATE_DB_NAME\<close>, the library class's
  constant (parameter \<open>BASE_STATE_DB_NAME\<close>), not \<^verbatim>\<open>self.STATE_DB_NAME\<close>.
\<close>

definition get_previous_states_metadata ::
  "(string \<Rightarrow> string option) \<Rightarrow> (string \<Rightarrow> error + string) \<Rightarrow> string \<Rightarrow> int \<Rightarrow>
   'b storage \<Rightarrow> ((string \<rightharpoonup> string) list, 'b) outcome"
where
  "get_previous_states_metadata other rfc3339_to_rfc2822 BASE_STATE_DB_NAME limit s =
     (let (db_conn, s1) = sqlite3_connect s;
          (result, s2) = conn_execute other db_conn
                           [Word ''SELECT'', Star, Word ''FROM'', Word BASE_STATE_DB_NAME,
                            Word ''ORDER'', Word ''BY'', Word ''datetime'', LParen,
                            Word ''updated'', RParen, Word ''DESC'', Word ''LIMIT'',
                            Number limit] s1;
          r = (case result of
                 Inl e \<Rightarrow> Inl e
               | Inr (column_names, rws) \<Rightarrow>
                   states_dict_list rfc3339_to_rfc2822 column_names rws)
      in (r, conn_close db_conn s2))"

subsection \<open>The library class, and a populated store\<close>

text \<open>
  Modelled from the spec: \<^verbatim>\<open>SQLiteForgetfulNodeStorage\<close>, whose \<^verbatim>\<open>init_db_tables\<close> and
  \<^verbatim>\<open>clear\<close> the overrides end with, belongs to the nucypher library and is not among
  the source files. Section 4.1 of the specification says of \<^verbatim>\<open>initialize()\<close> that
  only missing structures are created, and of \<^verbatim>\<open>clear\<close> that \<^verbatim>\<open>metadata\<close> clears the
  node and teacher rows and \<^verbatim>\<open>certificates\<close> the certificate material. The two
  definitions below say that for a store that has its node and teacher tables (named
  by the parameters \<open>NODE_DB_NAME\<close> and \<open>TEACHER_DB_NAME\<close>) and keeps its certificates
  as a list. They are used at concrete stores only; the theorems about the overrides
  hold for every library method.
\<close>

definition library_init_db_tables :: "string list storage \<Rightarrow> (unit, string list) outcome" where
  "library_init_db_tables s = (Inr (), s)"

definition library_clear ::
  "string \<Rightarrow> string \<Rightarrow> bool \<Rightarrow> bool \<Rightarrow> string list storage \<Rightarrow> (unit, string list) outcome"
where
  "library_clear NODE_DB_NAME TEACHER_DB_NAME metadata certificates s =
     (case (if metadata then
              with_db_conn [([Word ''DELETE'', Word ''FROM'', Word NODE_DB_NAME], []),
                            ([Word ''DELETE'', Word ''FROM'', Word TEACHER_DB_NAME], [])] s
            else (Inr (), s)) of
        (Inl e, s') \<Rightarrow> (Inl e, s')
      | (Inr _, s') \<Rightarrow> (Inr (), if certificates then s'\<lparr>inherited := []\<rparr> else s'))"

definition example_state :: fleet_state where
  "example_state =
     \<lparr>nickname = ''Blue Hexagon'', symbol = ''#'', color_hex = ''0000FF'',
      color_name = ''blue'', updated = ''2019-11-05T10:00:00.0Z''\<rparr>"

definition populated_store :: "string list storage" where
  "populated_store =
     \<lparr>db = [''node_info'' \<mapsto>
               \<lparr>columns = [''staker_address'', ''rest_url'', ''timestamp''],
                primary_key = Some ''staker_address'',
                rows = [[''0xAAA'', ''10.0.0.1:9151'', ''2019-11-05T09:59:00.0Z'']]\<rparr>,
            STATE_DB_NAME \<mapsto> empty_state_table\<lparr>rows := [db_row example_state]\<rparr>,
            ''teacher'' \<mapsto>
               \<lparr>columns = [''id'', ''checksum_address''],
                primary_key = Some ''id'',
                rows = [[''current_teacher'', ''0x123456789'']]\<rparr>],
      open_conns = [], trace = [], inherited = [''certificate of 0xAAA'']\<rparr>"

text \<open>
  Stand-ins, for the examples, of the two functions that are parameters: \<^verbatim>\<open>datetime\<close>
  answers NULL for a text that is not of the form above, and the conversion to RFC 2822,
  which keeps whole seconds only, raises on a text that is too short to be a time.
\<close>

definition example_other :: "string \<Rightarrow> string option" where
  "example_other u = None"

definition example_rfc2822 :: "string \<Rightarrow> error + string" where
  "example_rfc2822 u =
     (if length u < 19 then Inl (ValueError u) else Inr (''rfc2822 of '' @ take 19 u))"



section \<open>The time series client\<close>

subsection \<open>Dates\<close>

text \<open>
  A Python \<^verbatim>\<open>datetime\<close>, naive and read as UTC: \<open>day\<close> is the proleptic Gregorian
  ordinal of its date (\<^verbatim>\<open>toordinal()\<close>: 1 for 0001-01-01, 3652059 for 9999-12-31) and
  \<open>micros\<close> the microseconds since 00:00 of that day. Date arithmetic that leaves the
  years 1 to 9999 raises \<^verbatim>\<open>OverflowError\<close>, and so does a \<^verbatim>\<open>timedelta\<close> of more than
  999999999 days.
\<close>

record datetime =
  day :: int
  micros :: int

definition usec_per_day :: int where
  "usec_per_day = 86400000000"

definition instant :: "datetime \<Rightarrow> int" where
  "instant t = day t * usec_per_day + micros t"

definition midnight :: "int \<Rightarrow> datetime" where
  "midnight d = \<lparr>day = d, micros = 0\<rparr>"

definition timedelta :: "int \<Rightarrow> error + int" where
  "timedelta days =
     (if - 999999999 \<le> days \<and> days \<le> 999999999 then Inr days
      else Inl (OverflowError ''days magnitude must be at most 999999999''))"

definition add_days :: "datetime \<Rightarrow> int \<Rightarrow> error + datetime" where
  "add_days t n =
     (if 1 \<le> day t + n \<and> day t + n \<le> 3652059 then Inr (t\<lparr>day := day t + n\<rparr>)
      else Inl (OverflowError ''date value out of range''))"

text \<open>
  The condition on the time that both query texts carry,
  \<^verbatim>\<open>time >= '{range_begin}' AND time < '{range_end + timedelta(days=1)}'\<close>: its two
  bounds, and the instants it selects.
\<close>

record time_clause =
  time_ge :: datetime
  time_lt :: datetime

definition selects :: "time_clause \<Rightarrow> datetime \<Rightarrow> bool" where
  "selects w t = (instant (time_ge w) \<le> instant t \<and> instant t < instant (time_lt w))"

text \<open>
  The bounds are computed from \<^verbatim>\<open>today = datetime.utcnow()\<close>, in the order of the source.
\<close>

definition query_range :: "datetime \<Rightarrow> int \<Rightarrow> error + time_clause" where
  "query_range today days =
     (let range_end = midnight (day today) in
      case timedelta (days - 1) of
        Inl e \<Rightarrow> Inl e
      | Inr back \<Rightarrow>
          (case add_days range_end (- back) of
             Inl e \<Rightarrow> Inl e
           | Inr range_begin \<Rightarrow>
               (case timedelta 1 of
                  Inl e \<Rightarrow> Inl e
                | Inr one \<Rightarrow>
                    (case add_days range_end one of
                       Inl e \<Rightarrow> Inl e
                     | Inr range_end_excl \<Rightarrow>
                         Inr \<lparr>time_ge = range_begin, time_lt = range_end_excl\<rparr>))))"

subsection \<open>The two range queries\<close>

text \<open>
  A value of a result row is truthy in Python unless it is \<^verbatim>\<open>None\<close> or zero. The
  \<^verbatim>\<open>OrderedDict\<close> is a list of pairs with distinct keys, in the order of first insertion;
  assigning to a key that is present replaces its value in place.
\<close>

definition truthy :: "('v::zero) option \<Rightarrow> bool" where
  "truthy v = (case v of None \<Rightarrow> False | Some x \<Rightarrow> x \<noteq> 0)"

fun ordered_dict_set :: "'k \<Rightarrow> 'v \<Rightarrow> ('k \<times> 'v) list \<Rightarrow> ('k \<times> 'v) list" where
  "ordered_dict_set k v [] = [(k, v)]"
| "ordered_dict_set k v ((k', v') # kvs) =
     (if k' = k then (k, v) # kvs else (k', v') # ordered_dict_set k v kvs)"

fun collect_truthy ::
  "('k \<times> ('v::zero) option) list \<Rightarrow> ('k \<times> 'v) list \<Rightarrow> ('k \<times> 'v) list"
where
  "collect_truthy [] acc = acc"
| "collect_truthy ((t, v) # results) acc =
     (if truthy v then collect_truthy results (ordered_dict_set t (the v) acc)
      else collect_truthy results acc)"

text \<open>
  \<open>query\<close> is \<^verbatim>\<open>self._client.query(...).get_points()\<close> for the query text of the method,
  as a function of the condition on the time that the text carries: it answers with the rows
  \<^verbatim>\<open>(time, sum)\<close>, resp. \<^verbatim>\<open>(time, count)\<close>, or raises. The maya conversions of the bounds
  to text and of a row's time back to a \<^verbatim>\<open>datetime\<close> are taken as exact. The numbers of
  InfluxDB are floats; they are idealised as reals (sums) and integers (counts).
\<close>

definition get_historical_locked_tokens_over_range ::
  "(time_clause \<Rightarrow> error + (datetime \<times> real option) list) \<Rightarrow> datetime \<Rightarrow> int \<Rightarrow>
   error + (datetime \<times> real) list"
where
  "get_historical_locked_tokens_over_range query today days =
     (case query_range today days of
        Inl e \<Rightarrow> Inl e
      | Inr where_time \<Rightarrow>
          (case query where_time of
             Inl e \<Rightarrow> Inl e
           | Inr results \<Rightarrow> Inr (collect_truthy results [])))"

definition get_historical_num_stakers_over_range ::
  "(time_clause \<Rightarrow> error + (datetime \<times> int option) list) \<Rightarrow> datetime \<Rightarrow> int \<Rightarrow>
   error + (datetime \<times> int) list"
where
  "get_historical_num_stakers_over_range query today days =
     (case query_range today days of
        Inl e \<Rightarrow> Inl e
      | Inr where_time \<Rightarrow>
          (case query where_time of
             Inl e \<Rightarrow> Inl e
           | Inr results \<Rightarrow> Inr (collect_truthy results [])))"

subsection \<open>What InfluxDB answers to the locked stake query\<close>

text \<open>
  The measurement \<^verbatim>\<open>moe_network_info\<close> holds points: a time, the tag
  \<^verbatim>\<open>staker_address\<close> and the field \<^verbatim>\<open>locked_stake\<close> (the other fields do not reach the
  result). The query text of \<^verbatim>\<open>get_historical_locked_tokens_over_range\<close> means, in
  InfluxQL:

  \<^item> \<^verbatim>\<open>WHERE time >= b AND time < e\<close>: the points whose time the condition selects;
  \<^item> \<^verbatim>\<open>GROUP BY staker_address, time(1d)\<close> with \<^verbatim>\<open>LAST(locked_stake)\<close>: for every staker
    and every day interval of the window (days begin at 00:00 UTC), the value of the
    latest point, null for a staker without a point in the interval;
  \<^item> \<^verbatim>\<open>SELECT SUM(locked_stake) FROM (...) GROUP BY time(1d)\<close>: for every day interval,
    the sum of the values that are not null; null when there is none.
\<close>

record point =
  time :: datetime
  staker_address :: string
  locked_stake :: real

definition bucket :: "datetime \<Rightarrow> int" where
  "bucket t = instant t div usec_per_day"

definition in_window :: "time_clause \<Rightarrow> point \<Rightarrow> bool" where
  "in_window w p = selects w (time p)"

definition buckets :: "time_clause \<Rightarrow> int list" where
  "buckets w =
     (if instant (time_ge w) < instant (time_lt w)
      then [bucket (time_ge w) .. (instant (time_lt w) - 1) div usec_per_day] else [])"

definition last_value :: "point list \<Rightarrow> real option" where
  "last_value ps =
     (case sort_key (\<lambda>p. instant (time p)) ps of
        [] \<Rightarrow> None
      | q # qs \<Rightarrow> Some (locked_stake (last (q # qs))))"

definition last_per_staker_and_day ::
  "point list \<Rightarrow> time_clause \<Rightarrow> (string \<times> int \<times> real option) list"
where
  "last_per_staker_and_day points w =
     concat (map (\<lambda>a. map (\<lambda>d. (a, d,
         last_value (filter (\<lambda>p. in_window w p \<and> staker_address p = a \<and> bucket (time p) = d)
                       points)))
       (buckets w)) (remdups (map staker_address points)))"

definition sum_per_day ::
  "(string \<times> int \<times> real option) list \<Rightarrow> int \<Rightarrow> real option"
where
  "sum_per_day inner d =
     (case concat (map (\<lambda>(a, d', v). (case v of None \<Rightarrow> [] | Some x \<Rightarrow> if d' = d then [x] else []))
                    inner) of
        [] \<Rightarrow> None
      | x # xs \<Rightarrow> Some (sum_list (x # xs)))"

definition influx_locked_stake_query ::
  "point list \<Rightarrow> time_clause \<Rightarrow> error + (datetime \<times> real option) list"
where
  "influx_locked_stake_query points w =
     Inr (map (\<lambda>d. (midnight d, sum_per_day (last_per_staker_and_day points w) d))
            (buckets w))"

text \<open>
  The words of the specification, to compare with: on a day, the stakers observed, the
  value each was last observed with, and the sum of these values.
\<close>

definition observed_on :: "point list \<Rightarrow> int \<Rightarrow> point list" where
  "observed_on points d = filter (\<lambda>p. bucket (time p) = d) points"

definition stakers_on :: "point list \<Rightarrow> int \<Rightarrow> string list" where
  "stakers_on points d = remdups (map staker_address (observed_on points d))"

definition last_observed :: "point list \<Rightarrow> int \<Rightarrow> string \<Rightarrow> real" where
  "last_observed points d a =
     locked_stake (last (sort_key (\<lambda>p. instant (time p))
                           (filter (\<lambda>p. staker_address p = a) (observed_on points d))))"

definition spec_daily_locked_stake :: "point list \<Rightarrow> int \<Rightarrow> real" where
  "spec_daily_locked_stake points d = sum_list (map (last_observed points d) (stakers_on points d))"

text \<open>
  For the examples: 5 November 2019 has the ordinal 737368. One staker is observed on
  the 4th with nothing locked; on the 5th it is observed twice and a second staker once.
\<close>

definition example_today :: datetime where
  "example_today = \<lparr>day = 737368, micros = 36000000000\<rparr>"

definition example_points :: "point list" where
  "example_points =
     [\<lparr>time = \<lparr>day = 737367, micros = 3600000000\<rparr>, staker_address = ''0xAAA'', locked_stake = 0\<rparr>,
      \<lparr>time = \<lparr>day = 737368, micros = 3600000000\<rparr>, staker_address = ''0xAAA'', locked_stake = 15000\<rparr>,
      \<lparr>time = \<lparr>day = 737368, micros = 3600000000\<rparr>, staker_address = ''0xBBB'', locked_stake = 20000\<rparr>,
      \<lparr>time = \<lparr>day = 737368, micros = 7200000000\<rparr>, staker_address = ''0xAAA'', locked_stake = 15005\<rparr>]"

definition example_counts :: "time_clause \<Rightarrow> error + (datetime \<times> int option) list" where
  "example_counts w = Inr [(midnight 737367, Some 0), (midnight 737368, Some 2)]"

definition example_clause :: time_clause where
  "example_clause = \<lparr>time_ge = midnight 737367, time_lt = midnight 737369\<rparr>"

section \<open>The crawler\<close>

text \<open>
  Modelled from the spec: \<^verbatim>\<open>monitor/crawler.py\<close>, the module of the class
  \<^verbatim>\<open>Crawler\<close>, is not among the source files; only its tests are. The definitions of
  this section follow section 4.4 of the specification: the states \<^verbatim>\<open>STOPPED\<close> and
  \<^verbatim>\<open>RUNNING\<close>, and the five steps of \<^verbatim>\<open>start()\<close>. \<open>reachable\<close> says whether the time
  series store answers when \<^verbatim>\<open>start()\<close> connects and calls \<^verbatim>\<open>ensureDatabase\<close>.
\<close>

datatype crawler_state = STOPPED | RUNNING

datatype task = LearningTask | MetricsTask

record crawler =
  state :: crawler_state
  tasks :: "task list"
  store_initialized :: bool

definition is_running :: "crawler \<Rightarrow> bool" where
  "is_running c = (state c = RUNNING)"

definition start :: "bool \<Rightarrow> crawler \<Rightarrow> (error + unit) \<times> crawler" where
  "start reachable c =
     (if is_running c then (Inr (), c)
      else if \<not> reachable then (Inl (ConnectionError ''time series store unreachable''), c)
      else (Inr (), c\<lparr>store_initialized := True,
                      tasks := tasks c @ [LearningTask, MetricsTask],
                      state := RUNNING\<rparr>))"

section \<open>Properties of the node storage\<close>

subsection \<open>clear\<close>

lemma clear_metadata_raises:
  "clear super_clear True certificates s = (Inl (OperationalError ''syntax error''), s)"
  by (simp add: clear_def with_db_conn_def execute_def syntax_error_def)

lemma clear_not_metadata:
  "clear super_clear False certificates s = super_clear False certificates s"
  by (simp add: clear_def)

lemma populated_store_rows:
  "table_rows ''node_info'' populated_store =
     [[''0xAAA'', ''10.0.0.1:9151'', ''2019-11-05T09:59:00.0Z'']]"
  "table_rows STATE_DB_NAME populated_store = [db_row example_state]"
  "table_rows ''teacher'' populated_store = [[''current_teacher'', ''0x123456789'']]"
  by (simp_all add: table_rows_def populated_store_def STATE_DB_NAME_def empty_state_table_def)

text \<open>
  Claim C1 says that \<^verbatim>\<open>clear(metadata=True, certificates=False)\<close> empties the node, fleet
  state and teacher tables. The code does not: the statement it sends for the fleet
  state table is \<^verbatim>\<open>DELETE FORM fleet_state\<close>, which SQLite rejects, so the call raises
  \<^verbatim>\<open>OperationalError\<close> before the library's \<^verbatim>\<open>clear\<close> is reached. On the store with one
  node row, one fleet state row and a teacher row, the call raises and the store is
  what it was: the three tables still hold their rows.
\<close>

theorem clear_metadata_leaves_populated_store:
  "clear (library_clear ''node_info'' ''teacher'') True False populated_store
     = (Inl (OperationalError ''syntax error''), populated_store)
   \<and> table_rows ''node_info'' populated_store \<noteq> []
   \<and> table_rows STATE_DB_NAME populated_store \<noteq> []
   \<and> table_rows ''teacher'' populated_store \<noteq> []"
  by (simp add: clear_metadata_raises populated_store_rows)

subsection \<open>init\_db\_tables\<close>

lemma init_db_tables_eq:
  "init_db_tables super_init s =
     super_init (s\<lparr>db := (db s)(STATE_DB_NAME \<mapsto> empty_state_table)\<rparr>)"
  by (simp add: init_db_tables_def with_db_conn_def execute_def parse_columns_def
      state_columns_def empty_state_table_def)

text \<open>
  Claim C2, as amended: \<^verbatim>\<open>initialize()\<close> reaches the tables through \<^verbatim>\<open>init_db_tables\<close>,
  and a repeated call is not free of loss. For every store and every initialisation of
  the library class, \<^verbatim>\<open>init_db_tables\<close> drops the fleet state table and creates it
  anew, so that the library's step starts from a store whose fleet state table is
  empty; every other table (the node rows and the teacher pointer among them) is
  handed to the library's step as it was.
\<close>

theorem init_db_tables_recreates_state_table:
  "init_db_tables super_init_db_tables s =
     super_init_db_tables (s\<lparr>db := (db s)(STATE_DB_NAME \<mapsto> empty_state_table)\<rparr>)
   \<and> table_rows STATE_DB_NAME (s\<lparr>db := (db s)(STATE_DB_NAME \<mapsto> empty_state_table)\<rparr>) = []
   \<and> (\<forall>t. t \<noteq> STATE_DB_NAME \<longrightarrow>
         db (s\<lparr>db := (db s)(STATE_DB_NAME \<mapsto> empty_state_table)\<rparr>) t = db s t)"
  by (simp add: init_db_tables_eq table_rows_def empty_state_table_def)

text \<open>
  The amended claim on the populated store, with a library step that creates nothing
  (the node and teacher tables exist): the call returns, the fleet state table is
  empty, the node and teacher rows are those of before.
\<close>

theorem init_db_tables_recreates_state_table_witness:
  "fst (init_db_tables library_init_db_tables populated_store) = Inr ()
   \<and> table_rows STATE_DB_NAME (snd (init_db_tables library_init_db_tables populated_store)) = []
   \<and> table_rows ''node_info'' (snd (init_db_tables library_init_db_tables populated_store))
       = table_rows ''node_info'' populated_store
   \<and> table_rows ''teacher'' (snd (init_db_tables library_init_db_tables populated_store))
       = table_rows ''teacher'' populated_store"
  using init_db_tables_recreates_state_table [of library_init_db_tables populated_store]
  by (simp add: library_init_db_tables_def table_rows_def STATE_DB_NAME_def)

text \<open>
  Claim C2 as stated fails: after the repeated initialisation of the populated store
  the fleet state rows are not those stored before.
\<close>

theorem init_db_tables_loses_states:
  "table_rows STATE_DB_NAME (snd (init_db_tables library_init_db_tables populated_store))
     \<noteq> table_rows STATE_DB_NAME populated_store"
  by (simp add: init_db_tables_eq library_init_db_tables_def populated_store_rows)
     (simp add: table_rows_def empty_state_table_def)

subsection \<open>store\_state\_metadata\<close>

lemma pk_value_db_row:
  "columns tb = state_columns \<Longrightarrow> primary_key tb = Some ''nickname'' \<Longrightarrow>
   pk_value tb (db_row st) = Some (nickname st)"
  by (simp add: pk_value_def cell_def db_row_def state_columns_def)

lemma pk_value_take:
  "columns tb = state_columns \<Longrightarrow> primary_key tb = Some ''nickname'' \<Longrightarrow>
   (pk_value tb r = Some n) = (take 1 r = [n])"
  by (cases r) (simp_all add: pk_value_def cell_def state_columns_def)

lemma write_state_metadata_ready:
  assumes "db s STATE_DB_NAME = Some tb" "columns tb = state_columns"
  shows "write_state_metadata st s =
           (Inr (), s\<lparr>db := (db s)(STATE_DB_NAME \<mapsto> replace_row tb (db_row st))\<rparr>)"
  using assms
  by (simp add: write_state_metadata_def with_db_conn_def execute_def state_columns_def db_row_def)

lemma store_state_metadata_step:
  assumes "state_table_ready s"
  shows "\<exists>s'. store_state_metadata st s = (Inr (), s') \<and> state_table_ready s' \<and>
           rows_of_nickname (nickname st) s' = [db_row st]"
proof -
  from assms obtain tb where tb: "db s STATE_DB_NAME = Some tb" "columns tb = state_columns"
    "primary_key tb = Some ''nickname''"
    by (auto simp: state_table_ready_def split: option.splits)
  let ?s' = "s\<lparr>db := (db s)(STATE_DB_NAME \<mapsto> replace_row tb (db_row st))\<rparr>"
  have w: "store_state_metadata st s = (Inr (), ?s')"
    using write_state_metadata_ready[OF tb(1,2)] by (simp add: store_state_metadata_def)
  have rr: "replace_row tb (db_row st) =
     tb\<lparr>rows := filter (\<lambda>r. take 1 r \<noteq> [nickname st]) (rows tb) @ [db_row st]\<rparr>"
    using tb by (simp add: replace_row_def pk_value_db_row pk_value_take)
  have r: "state_table_ready ?s'"
    using tb by (simp add: state_table_ready_def rr)
  have a: "rows_of_nickname (nickname st) ?s' = [db_row st]"
    by (simp add: rows_of_nickname_def table_rows_def rr) (simp add: db_row_def)
  show ?thesis using w r a by blast
qed

text \<open>
  Claim C3: on a store whose fleet state table is the one \<^verbatim>\<open>init_db_tables\<close> creates,
  every non-empty sequence of calls of \<^verbatim>\<open>store_state_metadata\<close> with states of one
  nickname \<open>n\<close> returns, and afterwards the table holds exactly one row of nickname
  \<open>n\<close>: the row of the last state written.
\<close>

theorem store_states_same_nickname:
  assumes "state_table_ready s" and "states \<noteq> []" and "\<forall>st \<in> set states. nickname st = n"
  shows "\<exists>s'. store_states states s = (Inr (), s') \<and>
            rows_of_nickname n s' = [db_row (last states)] \<and>
            length (rows_of_nickname n s') = 1"
proof -
  have "\<exists>s'. store_states states s = (Inr (), s') \<and> state_table_ready s' \<and>
            rows_of_nickname n s' = [db_row (last states)]"
    using assms
  proof (induction states arbitrary: s)
    case Nil
    then show ?case by simp
  next
    case (Cons st states)
    from store_state_metadata_step[OF Cons.prems(1), of st]
    obtain s1 where s1: "store_state_metadata st s = (Inr (), s1)" "state_table_ready s1"
      "rows_of_nickname (nickname st) s1 = [db_row st]" by blast
    show ?case
    proof (cases "states = []")
      case True
      with s1 Cons.prems show ?thesis by simp
    next
      case False
      from Cons.IH[OF s1(2) False] Cons.prems(3)
      obtain s' where "store_states states s1 = (Inr (), s')" "state_table_ready s'"
        "rows_of_nickname n s' = [db_row (last states)]" by auto
      with s1 False show ?thesis by simp
    qed
  qed
  then show ?thesis by auto
qed

lemma populated_ready: "state_table_ready populated_store"
  by (simp add: state_table_ready_def populated_store_def empty_state_table_def STATE_DB_NAME_def)

text \<open>
  Two writes of the nickname of the row that the populated store holds: one row of
  that nickname remains, with the values of the second write.
\<close>

theorem store_states_same_nickname_witness:
  "state_table_ready populated_store
   \<and> [example_state\<lparr>symbol := ''%''\<rparr>, example_state\<lparr>color_name := ''red''\<rparr>] \<noteq> []
   \<and> (\<exists>s'. store_states [example_state\<lparr>symbol := ''%''\<rparr>, example_state\<lparr>color_name := ''red''\<rparr>]
              populated_store = (Inr (), s')
          \<and> rows_of_nickname ''Blue Hexagon'' s' =
              [[''Blue Hexagon'', ''#'', ''0000FF'', ''red'', ''2019-11-05T10:00:00.0Z'']]
          \<and> length (rows_of_nickname ''Blue Hexagon'' s') = 1)"
  using store_states_same_nickname
    [of populated_store "[example_state\<lparr>symbol := ''%''\<rparr>, example_state\<lparr>color_name := ''red''\<rparr>]"
        "''Blue Hexagon''"]
  by (simp add: populated_ready example_state_def db_row_def)

subsection \<open>clear without metadata\<close>

text \<open>
  Claim C8: with \<^verbatim>\<open>metadata=False\<close> the override sends no statement of its own and
  hands the call to the library's \<^verbatim>\<open>clear\<close>. For every library \<^verbatim>\<open>clear\<close> that leaves
  the database alone when \<^verbatim>\<open>metadata\<close> is false,
  \<^verbatim>\<open>clear(metadata=False, certificates=True)\<close> leaves every row of every table (node,
  fleet state and teacher among them) as it was.
\<close>

theorem clear_certificates_only_keeps_tables:
  assumes "\<And>s. db (snd (super_clear False True s)) = db s"
  shows "clear super_clear False True s = super_clear False True s
         \<and> db (snd (clear super_clear False True s)) = db s
         \<and> (\<forall>t. table_rows t (snd (clear super_clear False True s)) = table_rows t s)"
  using assms by (simp add: clear_def table_rows_def)

lemma library_clear_not_metadata:
  "library_clear n t False c s = (Inr (), if c then s\<lparr>inherited := []\<rparr> else s)"
  by (simp add: library_clear_def)

lemma table_rows_inherited: "table_rows t (s\<lparr>inherited := x\<rparr>) = table_rows t s"
  by (simp add: table_rows_def)

text \<open>
  On the populated store, with the library's \<^verbatim>\<open>clear\<close> as the specification describes
  it: the certificates are gone, the three tables hold the rows of before.
\<close>

theorem clear_certificates_only_keeps_tables_witness:
  "clear (library_clear ''node_info'' ''teacher'') False True populated_store
      = (Inr (), populated_store\<lparr>inherited := []\<rparr>)
   \<and> table_rows ''node_info'' (snd (clear (library_clear ''node_info'' ''teacher'') False True populated_store))
      = [[''0xAAA'', ''10.0.0.1:9151'', ''2019-11-05T09:59:00.0Z'']]
   \<and> table_rows STATE_DB_NAME (snd (clear (library_clear ''node_info'' ''teacher'') False True populated_store))
      = [db_row example_state]
   \<and> table_rows ''teacher'' (snd (clear (library_clear ''node_info'' ''teacher'') False True populated_store))
      = [[''current_teacher'', ''0x123456789'']]"
  using clear_certificates_only_keeps_tables
    [of "library_clear ''node_info'' ''teacher''" populated_store]
  by (simp add: library_clear_not_metadata populated_store_rows table_rows_inherited)

subsection \<open>The two reading methods\<close>

lemma fold_max_ge: "a \<le> fold max xs (a::nat)"
  by (induction xs arbitrary: a) (auto intro: order_trans[OF max.cobounded2])

lemma fold_max_mem: "x \<in> set xs \<Longrightarrow> x \<le> fold max xs (a::nat)"
proof (induction xs arbitrary: a)
  case Nil
  then show ?case by simp
next
  case (Cons y ys)
  show ?case
  proof (cases "x = y")
    case True
    have "y \<le> max y a" by simp
    also have "\<dots> \<le> fold max ys (max y a)" by (rule fold_max_ge)
    finally show ?thesis using True by simp
  next
    case False
    with Cons show ?thesis by simp
  qed
qed

lemma fresh_handle_fresh: "fresh_handle conns \<notin> set conns"
proof
  assume "fresh_handle conns \<in> set conns"
  then have "fresh_handle conns \<le> fold max conns 0" by (rule fold_max_mem)
  then show False by (simp add: fresh_handle_def)
qed

lemma fresh_handle_pos: "fresh_handle conns \<noteq> 0"
  by (simp add: fresh_handle_def)

lemma get_known_nodes_metadata_eq:
  "get_known_nodes_metadata other N s =
     ((case db s N of
         None \<Rightarrow> no_such_table N
       | Some tb \<Rightarrow> known_nodes (columns tb) (rows tb) Map.empty),
      s\<lparr>trace := trace s @ [Opened (fresh_handle (open_conns s)),
                             Queried (fresh_handle (open_conns s)),
                             Closed (fresh_handle (open_conns s))]\<rparr>)"
  by (simp add: get_known_nodes_metadata_def sqlite3_connect_def conn_execute_def conn_close_def
      execute_query_def Let_def fresh_handle_fresh no_such_table_def split: option.splits)

lemma get_previous_states_metadata_eq:
  "get_previous_states_metadata other conv T limit s =
     ((case db s T of
         None \<Rightarrow> no_such_table T
       | Some tb \<Rightarrow>
           if ''updated'' \<notin> set (columns tb)
           then Inl (OperationalError ''no such column: updated'')
           else if \<not> int64 limit then Inl (IntegrityError ''datatype mismatch'')
           else states_dict_list conv (columns tb)
                  (limit_rows limit (order_desc (order_key other tb ''updated'') (rows tb)))),
      s\<lparr>trace := trace s @ [Opened (fresh_handle (open_conns s)),
                             Queried (fresh_handle (open_conns s)),
                             Closed (fresh_handle (open_conns s))]\<rparr>)"
  by (simp add: get_previous_states_metadata_def sqlite3_connect_def conn_execute_def
      conn_close_def execute_query_def Let_def fresh_handle_fresh no_such_table_def
      split: option.splits)

text \<open>
  Claim C9: every call of \<^verbatim>\<open>get_known_nodes_metadata\<close> and of
  \<^verbatim>\<open>get_previous_states_metadata\<close> opens a connection of its own, whose handle is
  neither the shared \<^verbatim>\<open>self.db_conn\<close> (handle \<open>0\<close>) nor any open handle, sends its
  query through it and closes it: the call adds to the trace the opening, the query
  and the closing of that one handle, and the open connections after the call are
  those of before. This holds whatever the call returns, so also when the query
  raises.
\<close>

theorem reads_use_own_connection:
  "fresh_handle (open_conns s) \<notin> set (open_conns s)
   \<and> fresh_handle (open_conns s) \<noteq> 0
   \<and> trace (snd (get_known_nodes_metadata other N s)) =
       trace s @ [Opened (fresh_handle (open_conns s)), Queried (fresh_handle (open_conns s)),
                  Closed (fresh_handle (open_conns s))]
   \<and> open_conns (snd (get_known_nodes_metadata other N s)) = open_conns s
   \<and> trace (snd (get_previous_states_metadata other conv T limit s)) =
       trace s @ [Opened (fresh_handle (open_conns s)), Queried (fresh_handle (open_conns s)),
                  Closed (fresh_handle (open_conns s))]
   \<and> open_conns (snd (get_previous_states_metadata other conv T limit s)) = open_conns s"
  by (simp add: get_known_nodes_metadata_eq get_previous_states_metadata_eq
      fresh_handle_fresh fresh_handle_pos)

text \<open>
  The path of the exception: the table asked for does not exist, both calls raise
  \<^verbatim>\<open>OperationalError\<close>, and the connection they opened is closed.
\<close>

theorem reads_use_own_connection_witness:
  "fst (get_known_nodes_metadata example_other ''no_table'' populated_store)
     = Inl (OperationalError ''no such table: no_table'')
   \<and> trace (snd (get_known_nodes_metadata example_other ''no_table'' populated_store))
     = [Opened 1, Queried 1, Closed 1]
   \<and> open_conns (snd (get_known_nodes_metadata example_other ''no_table'' populated_store)) = []
   \<and> fst (get_previous_states_metadata example_other example_rfc2822 ''no_table'' 5 populated_store)
     = Inl (OperationalError ''no such table: no_table'')
   \<and> trace (snd (get_previous_states_metadata example_other example_rfc2822 ''no_table'' 5
                   populated_store))
     = [Opened 1, Queried 1, Closed 1]
   \<and> open_conns (snd (get_previous_states_metadata example_other example_rfc2822 ''no_table'' 5
                   populated_store)) = []"
  using reads_use_own_connection
    [of populated_store example_other "''no_table''" example_rfc2822 "''no_table''" 5]
  by (simp add: get_known_nodes_metadata_eq get_previous_states_metadata_eq
      populated_store_def fresh_handle_def no_such_table_def STATE_DB_NAME_def)

subsection \<open>The order and number of the previous states\<close>











text \<open>
  The call returns (rather than raises) whenever the table exists with its \<^verbatim>\<open>updated\<close>
  column, the limit is a 64-bit integer, no row is longer than the column names, and
  the conversion to RFC 2822 accepts every text. With a limit that is no 64-bit
  integer it raises.
\<close>

lemma state_info_returns:
  assumes "\<forall>v. \<exists>v'. conv v = Inr v'"
  shows "length r \<le> length cs \<Longrightarrow> \<exists>m'. state_info conv cs r m = Inr m'"
proof (induction r arbitrary: cs m)
  case Nil
  then show ?case by simp
next
  case (Cons v vs)
  then obtain c cs' where cs: "cs = c # cs'" by (cases cs) auto
  obtain v' where v': "conv v = Inr v'" using assms by blast
  from Cons.prems cs have len: "length vs \<le> length cs'" by simp
  show ?case
  proof (cases "c = ''updated''")
    case True
    from Cons.IH [OF len, of "m(c \<mapsto> v')"]
    obtain m' where "state_info conv cs' vs (m(c \<mapsto> v')) = Inr m'" by blast
    then show ?thesis unfolding cs using True v' by simp
  next
    case False
    from Cons.IH [OF len, of "m(c \<mapsto> v)"]
    obtain m' where "state_info conv cs' vs (m(c \<mapsto> v)) = Inr m'" by blast
    then show ?thesis unfolding cs using False by simp
  qed
qed

lemma states_dict_list_returns:
  assumes "\<forall>v. \<exists>v'. conv v = Inr v'"
  shows "\<forall>r \<in> set rs. length r \<le> length cs \<Longrightarrow> \<exists>res. states_dict_list conv cs rs = Inr res"
proof (induction rs)
  case Nil
  then show ?case by simp
next
  case (Cons r rs)
  then obtain m where "state_info conv cs r Map.empty = Inr m"
    using state_info_returns [OF assms, where r = r and cs = cs and m = Map.empty] by auto
  moreover from Cons obtain res where "states_dict_list conv cs rs = Inr res" by auto
  ultimately show ?case by simp
qed

lemma previous_states_returns:
  assumes "db s T = Some tb" and "''updated'' \<in> set (columns tb)" and "int64 limit"
    and "\<forall>r \<in> set (rows tb). length r \<le> length (columns tb)"
    and "\<forall>v. \<exists>v'. conv v = Inr v'"
  shows "\<exists>res. fst (get_previous_states_metadata other conv T limit s) = Inr res"
proof -
  have "set (limit_rows limit (order_desc (order_key other tb ''updated'') (rows tb)))
          \<subseteq> set (rows tb)"
    by (auto simp: limit_rows_def order_desc_def dest: in_set_takeD)
  with assms(4) have "\<forall>r \<in> set (limit_rows limit
      (order_desc (order_key other tb ''updated'') (rows tb))). length r \<le> length (columns tb)"
    by blast
  from states_dict_list_returns [OF assms(5) this]
  show ?thesis using assms(1,2,3) by (simp add: get_previous_states_metadata_eq)
qed

lemma previous_states_limit_too_large:
  assumes "db s T = Some tb" and "''updated'' \<in> set (columns tb)" and "\<not> int64 limit"
  shows "fst (get_previous_states_metadata other conv T limit s)
           = Inl (IntegrityError ''datatype mismatch'')"
  using assms by (simp add: get_previous_states_metadata_eq)







section \<open>Properties of the time series client\<close>

lemma query_range_Inr:
  "(query_range today days = Inr w) =
     (- 999999999 \<le> days - 1 \<and> days - 1 \<le> 999999999
      \<and> 1 \<le> day today - (days - 1) \<and> day today - (days - 1) \<le> 3652059
      \<and> 1 \<le> day today + 1 \<and> day today + 1 \<le> 3652059
      \<and> w = \<lparr>time_ge = midnight (day today - (days - 1)), time_lt = midnight (day today + 1)\<rparr>)"
  by (auto simp: query_range_def timedelta_def add_days_def midnight_def Let_def)

lemma instant_midnight: "instant (midnight d) = d * usec_per_day"
  by (simp add: instant_def midnight_def)

lemma locked_tokens_of_window:
  "query_range today days = Inr w \<Longrightarrow>
   get_historical_locked_tokens_over_range q today days =
     (case q w of Inl err \<Rightarrow> Inl err | Inr results \<Rightarrow> Inr (collect_truthy results []))"
  by (simp add: get_historical_locked_tokens_over_range_def)

lemma num_stakers_of_window:
  "query_range today days = Inr w \<Longrightarrow>
   get_historical_num_stakers_over_range q today days =
     (case q w of Inl err \<Rightarrow> Inl err | Inr results \<Rightarrow> Inr (collect_truthy results []))"
  by (simp add: get_historical_num_stakers_over_range_def)

lemma usec_pos: "0 < usec_per_day" by (simp add: usec_per_day_def)

lemma bucket_midnight: "bucket (midnight d) = d"
  using usec_pos by (simp add: bucket_def instant_midnight)

lemma div_before_multiple:
  assumes "0 < (U::int)"
  shows "(E * U - 1) div U = E - 1"
proof -
  have eq: "E * U - 1 = (E - 1) * U + (U - 1)"
    by (simp add: algebra_simps)
  have "((E - 1) * U + (U - 1)) div U = (E - 1) + (U - 1) div U"
    using assms by (simp add: div_mult_self3)
  moreover have "(U - 1) div U = 0"
    using assms by (simp add: div_pos_pos_trivial)
  ultimately show ?thesis unfolding eq by simp
qed

lemma bucket_bounds:
  "bucket t = d \<Longrightarrow> d * usec_per_day \<le> instant t \<and> instant t < (d + 1) * usec_per_day"
proof -
  assume d: "bucket t = d"
  have "instant t div usec_per_day * usec_per_day + instant t mod usec_per_day = instant t"
    by (rule div_mult_mod_eq)
  with d have m: "d * usec_per_day + instant t mod usec_per_day = instant t"
    by (simp add: bucket_def)
  have "0 \<le> instant t mod usec_per_day" "instant t mod usec_per_day < usec_per_day"
    using usec_pos by simp_all
  then show ?thesis using m by (simp add: algebra_simps)
qed

text \<open>
  A condition from midnight to midnight selects the instants of whole days: those of
  the days \<open>B\<close> to \<open>E - 1\<close>.
\<close>

lemma selects_days:
  "selects \<lparr>time_ge = midnight B, time_lt = midnight E\<rparr> t = (B \<le> bucket t \<and> bucket t \<le> E - 1)"
proof
  assume "selects \<lparr>time_ge = midnight B, time_lt = midnight E\<rparr> t"
  then have lo: "B * usec_per_day \<le> instant t" and hi: "instant t \<le> E * usec_per_day - 1"
    by (simp_all add: selects_def instant_midnight)
  have "(B * usec_per_day) div usec_per_day \<le> instant t div usec_per_day"
    using lo usec_pos by (intro zdiv_mono1) simp_all
  then have 1: "B \<le> bucket t" using usec_pos by (simp add: bucket_def)
  have "instant t div usec_per_day \<le> (E * usec_per_day - 1) div usec_per_day"
    using hi usec_pos by (intro zdiv_mono1) simp_all
  then have 2: "bucket t \<le> E - 1"
    by (simp add: bucket_def div_before_multiple [OF usec_pos])
  from 1 2 show "B \<le> bucket t \<and> bucket t \<le> E - 1" ..
next
  assume a: "B \<le> bucket t \<and> bucket t \<le> E - 1"
  from bucket_bounds [OF refl, of t]
  have lo: "bucket t * usec_per_day \<le> instant t"
    and hi: "instant t < (bucket t + 1) * usec_per_day" by simp_all
  have "B * usec_per_day \<le> bucket t * usec_per_day"
    using a usec_pos by (intro mult_right_mono) simp_all
  moreover have "(bucket t + 1) * usec_per_day \<le> E * usec_per_day"
    using a usec_pos by (intro mult_right_mono) simp_all
  ultimately show "selects \<lparr>time_ge = midnight B, time_lt = midnight E\<rparr> t"
    using lo hi by (simp add: selects_def instant_midnight)
qed

lemma bucket_of_day:
  "0 \<le> micros t \<Longrightarrow> micros t < usec_per_day \<Longrightarrow> bucket t = day t"
  by (simp add: bucket_def instant_def div_pos_pos_trivial usec_pos)

text \<open>
  Claim C6, as amended: both range methods ask a query exactly when the dates involved
  exist (otherwise they raise \<^verbatim>\<open>OverflowError\<close> and ask nothing), and then the condition
  they hand to the query has its lower bound, inclusive, at 00:00 of the day \<open>days - 1\<close>
  days before today and its upper bound, exclusive, at 00:00 of tomorrow. It selects
  exactly the instants of the days from \<open>day today - (days - 1)\<close> to \<open>day today\<close>: for
  \<open>days \<ge> 1\<close> these are \<open>days\<close> days, the last of them today (the present moment is
  selected, 00:00 of tomorrow is not); for \<open>days \<le> 0\<close> no instant is selected.
\<close>

theorem query_window_spans_days:
  "(query_range today days = Inr w) =
     (- 999999999 \<le> days - 1 \<and> days - 1 \<le> 999999999
      \<and> 1 \<le> day today - (days - 1) \<and> day today - (days - 1) \<le> 3652059
      \<and> 1 \<le> day today + 1 \<and> day today + 1 \<le> 3652059
      \<and> w = \<lparr>time_ge = midnight (day today - (days - 1)), time_lt = midnight (day today + 1)\<rparr>)
   \<and> (query_range today days = Inr w \<longrightarrow>
         get_historical_locked_tokens_over_range q1 today days =
           (case q1 w of Inl err \<Rightarrow> Inl err | Inr results \<Rightarrow> Inr (collect_truthy results []))
       \<and> get_historical_num_stakers_over_range q2 today days =
           (case q2 w of Inl err \<Rightarrow> Inl err | Inr results \<Rightarrow> Inr (collect_truthy results []))
       \<and> instant (time_lt w) - instant (time_ge w) = days * usec_per_day
       \<and> (\<forall>t. selects w t = (day today - (days - 1) \<le> bucket t \<and> bucket t \<le> day today))
       \<and> (1 \<le> days \<longrightarrow> card {day today - (days - 1) .. day today} = nat days
                        \<and> selects w (time_ge w))
       \<and> \<not> selects w (time_lt w)
       \<and> (0 \<le> micros today \<and> micros today < usec_per_day \<longrightarrow> selects w today = (1 \<le> days))
       \<and> (days \<le> 0 \<longrightarrow> (\<forall>t. \<not> selects w t)))"
proof -
  let ?B = "day today - (days - 1)" and ?E = "day today + 1"
  let ?w = "\<lparr>time_ge = midnight ?B, time_lt = midnight ?E\<rparr>"
  have sel: "selects ?w t = (?B \<le> bucket t \<and> bucket t \<le> day today)" for t
    using selects_days [of ?B ?E t] by simp
  have len: "instant (time_lt ?w) - instant (time_ge ?w) = days * usec_per_day"
    by (simp add: instant_midnight algebra_simps)
  have card: "1 \<le> days \<longrightarrow> card {?B .. day today} = nat days"
    by simp
  have first: "1 \<le> days \<longrightarrow> selects ?w (time_ge ?w)"
    by (simp add: sel bucket_midnight)
  have last: "\<not> selects ?w (time_lt ?w)"
    by (simp add: sel bucket_midnight)
  have now: "0 \<le> micros today \<and> micros today < usec_per_day \<longrightarrow> selects ?w today = (1 \<le> days)"
    by (auto simp: sel bucket_of_day)
  have none: "days \<le> 0 \<longrightarrow> (\<forall>t. \<not> selects ?w t)"
    by (auto simp: sel)
  have rest: "query_range today days = Inr w \<longrightarrow> w = ?w"
    by (simp add: query_range_Inr)
  show ?thesis
    using query_range_Inr [of today days w] sel len card first last now none rest
      locked_tokens_of_window [of today days w q1] num_stakers_of_window [of today days w q2]
    by (metis (no_types, lifting))
qed

lemma example_window:
  "query_range example_today 2 = Inr example_clause"
  by (simp add: query_range_Inr example_today_def example_clause_def)

text \<open>
  On 5 November 2019 at 10:00 with \<open>days = 2\<close>: from the 4th, 00:00, to the 6th, 00:00.
  The present moment is selected, the 6th, 00:00, is not.
\<close>

theorem query_window_spans_days_witness:
  "query_range example_today 2 = Inr example_clause
   \<and> instant (time_lt example_clause) - instant (time_ge example_clause) = 2 * usec_per_day
   \<and> selects example_clause example_today
   \<and> selects example_clause (midnight 737367)
   \<and> \<not> selects example_clause (midnight 737369)"
  using query_window_spans_days [of example_today 2 example_clause]
  by (simp add: example_window)
     (simp add: example_today_def usec_per_day_def example_clause_def bucket_def instant_def
        midnight_def)

text \<open>
  Claim C6 as stated fails for \<open>days = 0\<close>: the condition asked for runs from 00:00 of
  tomorrow to 00:00 of tomorrow and does not select the present moment, so the window
  does not include the current day.
\<close>

theorem query_window_without_today:
  "query_range example_today 0
     = Inr \<lparr>time_ge = midnight 737369, time_lt = midnight 737369\<rparr>
   \<and> \<not> selects \<lparr>time_ge = midnight 737369, time_lt = midnight 737369\<rparr> example_today"
  by (simp add: query_range_Inr example_today_def selects_def)

lemma ordered_dict_set_keys: "fst ` set (ordered_dict_set k v kvs) = insert k (fst ` set kvs)"
  by (induction kvs) (simp, force)

lemma ordered_dict_set_member:
  "(t, x) \<in> set (ordered_dict_set k v kvs) \<Longrightarrow> (t, x) = (k, v) \<or> (t, x) \<in> set kvs"
  by (induction kvs) (auto split: if_splits)

lemma collect_truthy_keys:
  "fst ` set (collect_truthy rs acc) = fst ` set acc \<union> {t. \<exists>v. (t, v) \<in> set rs \<and> truthy v}"
proof (induction rs arbitrary: acc)
  case Nil
  then show ?case by simp
next
  case (Cons r rs)
  obtain t v where r: "r = (t, v)" by (cases r)
  show ?case
    unfolding r using Cons.IH by (auto simp: ordered_dict_set_keys)
qed

lemma collect_truthy_nonzero:
  "(t, x) \<in> set (collect_truthy rs acc) \<Longrightarrow> (\<And>t x. (t, x) \<in> set acc \<Longrightarrow> x \<noteq> 0) \<Longrightarrow> x \<noteq> 0"
proof (induction rs arbitrary: acc)
  case Nil
  then show ?case by simp
next
  case (Cons r rs)
  obtain t' v where r: "r = (t', v)" by (cases r)
  show ?case
  proof (cases "truthy v")
    case True
    then obtain y where y: "v = Some y" "y \<noteq> 0" by (auto simp: truthy_def split: option.splits)
    have "\<And>t x. (t, x) \<in> set (ordered_dict_set t' y acc) \<Longrightarrow> x \<noteq> 0"
      using ordered_dict_set_member Cons.prems(2) y(2) by fastforce
    with Cons.IH [of "ordered_dict_set t' y acc"] Cons.prems(1) True y r show ?thesis by simp
  next
    case False
    with Cons.IH [of acc] Cons.prems r show ?thesis by simp
  qed
qed

text \<open>
  Claim C10: whatever rows InfluxDB answers with, the mapping of either method has a
  key exactly for the times of the rows whose aggregate is truthy. A time whose rows
  all carry \<^verbatim>\<open>None\<close> or zero is not a key, whether or not samples were observed on that
  day, and no value of the mapping is zero.
\<close>

theorem falsy_aggregates_are_omitted:
  assumes "query_range today days = Inr w" and "q1 w = Inr sum_rows" and "q2 w = Inr count_rows"
  shows "\<exists>m1 m2.
           get_historical_locked_tokens_over_range q1 today days = Inr m1
         \<and> get_historical_num_stakers_over_range q2 today days = Inr m2
         \<and> fst ` set m1 = {t. \<exists>v. (t, v) \<in> set sum_rows \<and> truthy v}
         \<and> fst ` set m2 = {t. \<exists>v. (t, v) \<in> set count_rows \<and> truthy v}
         \<and> (\<forall>t. (\<forall>v. (t, v) \<in> set sum_rows \<longrightarrow> v = None \<or> v = Some 0) \<longrightarrow> t \<notin> fst ` set m1)
         \<and> (\<forall>t. (\<forall>v. (t, v) \<in> set count_rows \<longrightarrow> v = None \<or> v = Some 0) \<longrightarrow> t \<notin> fst ` set m2)
         \<and> (\<forall>t x. (t, x) \<in> set m1 \<longrightarrow> x \<noteq> 0)
         \<and> (\<forall>t x. (t, x) \<in> set m2 \<longrightarrow> x \<noteq> 0)"
proof -
  let ?m1 = "collect_truthy sum_rows []" and ?m2 = "collect_truthy count_rows []"
  have 1: "get_historical_locked_tokens_over_range q1 today days = Inr ?m1"
    using assms by (simp add: locked_tokens_of_window)
  have 2: "get_historical_num_stakers_over_range q2 today days = Inr ?m2"
    using assms by (simp add: num_stakers_of_window)
  have k1: "fst ` set ?m1 = {t. \<exists>v. (t, v) \<in> set sum_rows \<and> truthy v}"
    by (simp add: collect_truthy_keys)
  have k2: "fst ` set ?m2 = {t. \<exists>v. (t, v) \<in> set count_rows \<and> truthy v}"
    by (simp add: collect_truthy_keys)
  have o1: "\<forall>t. (\<forall>v. (t, v) \<in> set sum_rows \<longrightarrow> v = None \<or> v = Some 0) \<longrightarrow> t \<notin> fst ` set ?m1"
    unfolding k1 by (auto simp: truthy_def)
  have o2: "\<forall>t. (\<forall>v. (t, v) \<in> set count_rows \<longrightarrow> v = None \<or> v = Some 0) \<longrightarrow> t \<notin> fst ` set ?m2"
    unfolding k2 by (auto simp: truthy_def)
  have n1: "\<forall>t x. (t, x) \<in> set ?m1 \<longrightarrow> x \<noteq> 0"
    using collect_truthy_nonzero [of _ _ sum_rows "[]"] by auto
  have n2: "\<forall>t x. (t, x) \<in> set ?m2 \<longrightarrow> x \<noteq> 0"
    using collect_truthy_nonzero [of _ _ count_rows "[]"] by auto
  show ?thesis using 1 2 k1 k2 o1 o2 n1 n2 by blast
qed

lemma example_sums:
  "influx_locked_stake_query example_points example_clause =
     Inr [(midnight 737367, Some 0), (midnight 737368, Some 35005)]"
  apply (simp add: influx_locked_stake_query_def buckets_def bucket_def instant_midnight
      usec_per_day_def example_clause_def)
  apply (simp add: sum_per_day_def last_per_staker_and_day_def example_points_def buckets_def
      bucket_def instant_def midnight_def usec_per_day_def in_window_def selects_def
      last_value_def)
  done

lemma buckets_midnight: "buckets \<lparr>time_ge = midnight B, time_lt = midnight E\<rparr> = [B .. E - 1]"
proof -
  have 2: "(B * usec_per_day < E * usec_per_day) = (B < E)"
    using usec_pos by simp
  show ?thesis
    by (simp add: buckets_def instant_midnight bucket_midnight div_before_multiple [OF usec_pos] 2)
qed

lemma in_window_of_bucket:
  assumes "B \<le> bucket (time p)" "bucket (time p) \<le> E - 1"
  shows "in_window \<lparr>time_ge = midnight B, time_lt = midnight E\<rparr> p"
proof -
  from bucket_bounds [OF refl, of "time p"]
  have lo: "bucket (time p) * usec_per_day \<le> instant (time p)"
    and hi: "instant (time p) < (bucket (time p) + 1) * usec_per_day" by simp_all
  have "B * usec_per_day \<le> bucket (time p) * usec_per_day"
    using assms(1) usec_pos by (intro mult_right_mono) simp_all
  moreover have "(bucket (time p) + 1) * usec_per_day \<le> E * usec_per_day"
    using assms(2) usec_pos by (intro mult_right_mono) simp_all
  ultimately show ?thesis using lo hi by (simp add: in_window_def selects_def instant_midnight)
qed

lemma last_value_eq:
  "last_value ps =
     (if ps = [] then None
      else Some (locked_stake (last (sort_key (\<lambda>p. instant (time p)) ps))))"
proof (cases "sort_key (\<lambda>p. instant (time p)) ps")
  case Nil
  then have "ps = []" by (metis length_sort length_0_conv)
  then show ?thesis by (simp add: last_value_def)
next
  case (Cons q qs)
  then have "ps \<noteq> []" by auto
  with Cons show ?thesis by (simp add: last_value_def)
qed

lemma inner_value:
  assumes "B \<le> d" "d \<le> E - 1"
  shows "last_value (filter (\<lambda>p. in_window \<lparr>time_ge = midnight B, time_lt = midnight E\<rparr> p \<and> staker_address p = a
                            \<and> bucket (time p) = d) points) =
         (if a \<in> set (stakers_on points d) then Some (last_observed points d a) else None)"
proof -
  have f: "filter (\<lambda>p. in_window \<lparr>time_ge = midnight B, time_lt = midnight E\<rparr> p \<and> staker_address p = a
                            \<and> bucket (time p) = d) points
           = filter (\<lambda>p. staker_address p = a) (observed_on points d)"
    unfolding observed_on_def filter_filter
    using assms in_window_of_bucket by (intro filter_cong [OF refl]) auto
  have e: "(filter (\<lambda>p. staker_address p = a) (observed_on points d) = [])
             = (a \<notin> set (stakers_on points d))"
    by (auto simp: stakers_on_def filter_empty_conv)
  show ?thesis
    unfolding f last_value_eq e by (simp add: last_observed_def)
qed

lemma concat_pick:
  "distinct ds \<Longrightarrow> d \<in> set ds \<Longrightarrow>
     concat (map (\<lambda>d'. if d' = d then f d' else []) ds) = f d"
  by (induction ds) auto

lemma concat_map_nested:
  "concat (map g (concat (map (\<lambda>a. map (h a) ds) xs)))
     = concat (map (\<lambda>a. concat (map (\<lambda>d. g (h a d)) ds)) xs)"
  by (induction xs) (simp_all add: comp_def)

lemma concat_map_singleton_if:
  "concat (map (\<lambda>a. if P a then [f a] else []) xs) = map f (filter P xs)"
  by (induction xs) auto

lemma sum_per_day_values:
  assumes "B \<le> d" "d \<le> E - 1"
  shows "concat (map (\<lambda>(a, d', v). (case v of None \<Rightarrow> [] | Some x \<Rightarrow> if d' = d then [x] else []))
           (last_per_staker_and_day points \<lparr>time_ge = midnight B, time_lt = midnight E\<rparr>))
         = map (last_observed points d)
             (filter (\<lambda>a. a \<in> set (stakers_on points d)) (remdups (map staker_address points)))"
proof -
  let ?lv = "\<lambda>a d'. last_value (filter (\<lambda>p. in_window \<lparr>time_ge = midnight B, time_lt = midnight E\<rparr> p
               \<and> staker_address p = a \<and> bucket (time p) = d') points)"
  have d: "d \<in> set [B .. E - 1]" "distinct [B .. E - 1]" using assms by simp_all
  have per_staker: "concat (map (\<lambda>d'. (case ?lv a d' of None \<Rightarrow> [] | Some x \<Rightarrow>
                       if d' = d then [x] else [])) [B .. E - 1])
        = (if a \<in> set (stakers_on points d) then [last_observed points d a] else [])" for a
  proof -
    have "(\<lambda>d'. (case ?lv a d' of None \<Rightarrow> [] | Some x \<Rightarrow> if d' = d then [x] else []))
        = (\<lambda>d'. if d' = d then (case ?lv a d' of None \<Rightarrow> [] | Some x \<Rightarrow> [x]) else [])"
      by (auto split: option.splits)
    then show ?thesis
      using concat_pick [OF d(2) d(1), of "\<lambda>d'. case ?lv a d' of None \<Rightarrow> [] | Some x \<Rightarrow> [x]"]
        inner_value [OF assms, of a points]
      by simp
  qed
  have "concat (map (\<lambda>(a, d', v). (case v of None \<Rightarrow> [] | Some x \<Rightarrow> if d' = d then [x] else []))
           (last_per_staker_and_day points \<lparr>time_ge = midnight B, time_lt = midnight E\<rparr>))
      = concat (map (\<lambda>a. concat (map (\<lambda>d'. (case ?lv a d' of None \<Rightarrow> [] | Some x \<Rightarrow>
                       if d' = d then [x] else [])) [B .. E - 1]))
                 (remdups (map staker_address points)))"
    unfolding last_per_staker_and_day_def buckets_midnight concat_map_nested by simp
  also have "\<dots> = concat (map (\<lambda>a. if a \<in> set (stakers_on points d)
                                    then [last_observed points d a] else [])
                          (remdups (map staker_address points)))"
    by (simp only: per_staker)
  also have "\<dots> = map (last_observed points d)
             (filter (\<lambda>a. a \<in> set (stakers_on points d)) (remdups (map staker_address points)))"
    by (rule concat_map_singleton_if)
  finally show ?thesis .
qed

lemma sum_per_day_eq:
  assumes "B \<le> d" "d \<le> E - 1"
  shows "sum_per_day (last_per_staker_and_day points \<lparr>time_ge = midnight B, time_lt = midnight E\<rparr>) d =
           (if observed_on points d = [] then None else Some (spec_daily_locked_stake points d))"
proof -
  let ?xs = "filter (\<lambda>a. a \<in> set (stakers_on points d)) (remdups (map staker_address points))"
  have sub: "set (stakers_on points d) \<subseteq> set (map staker_address points)"
    by (auto simp: stakers_on_def observed_on_def)
  then have set_eq: "set ?xs = set (stakers_on points d)" by auto
  have "sum_list (map (last_observed points d) ?xs) = sum (last_observed points d) (set ?xs)"
    by (rule sum_list_distinct_conv_sum_set) simp
  also have "\<dots> = sum (last_observed points d) (set (stakers_on points d))"
    by (simp only: set_eq)
  also have "\<dots> = sum_list (map (last_observed points d) (stakers_on points d))"
    by (rule sum_list_distinct_conv_sum_set [symmetric]) (simp add: stakers_on_def)
  finally have total: "sum_list (map (last_observed points d) ?xs) = spec_daily_locked_stake points d"
    by (simp add: spec_daily_locked_stake_def)
  have empty: "(?xs = []) = (observed_on points d = [])"
  proof -
    have "(?xs = []) = (set (stakers_on points d) = {})"
      using set_eq by (metis set_empty)
    also have "\<dots> = (observed_on points d = [])"
      by (simp add: stakers_on_def)
    finally show ?thesis .
  qed
  show ?thesis
    unfolding sum_per_day_def sum_per_day_values [OF assms]
    using total empty by (cases ?xs) (simp_all del: filter.simps)
qed

lemma map_of_ordered_dict_set: "map_of (ordered_dict_set k v kvs) = (map_of kvs)(k \<mapsto> v)"
  by (induction kvs) (auto simp: fun_eq_iff)

lemma ordered_dict_set_distinct:
  "distinct (map fst kvs) \<Longrightarrow> distinct (map fst (ordered_dict_set k v kvs))"
  by (induction kvs) (auto simp: ordered_dict_set_keys)

lemma collect_truthy_distinct:
  "distinct (map fst acc) \<Longrightarrow> distinct (map fst (collect_truthy rs acc))"
  by (induction rs arbitrary: acc) (auto simp: ordered_dict_set_distinct)

lemma map_of_collect_truthy:
  "distinct (map fst rs) \<Longrightarrow>
   map_of (collect_truthy rs acc) t =
     (case map_of rs t of
        None \<Rightarrow> map_of acc t
      | Some v \<Rightarrow> if truthy v then v else map_of acc t)"
proof (induction rs arbitrary: acc)
  case Nil
  then show ?case by simp
next
  case (Cons r rs)
  obtain t' v where r: "r = (t', v)" by (cases r)
  from Cons.prems r have dist: "distinct (map fst rs)" and notin: "t' \<notin> fst ` set rs" by auto
  then have none: "map_of rs t' = None" by (simp add: map_of_eq_None_iff)
  show ?case
  proof (cases "truthy v")
    case True
    then obtain y where y: "v = Some y" by (auto simp: truthy_def split: option.splits)
    show ?thesis
      using Cons.IH [OF dist, of "ordered_dict_set t' y acc"] True y r none
      by (auto simp: map_of_ordered_dict_set split: option.splits)
  next
    case False
    show ?thesis
      using Cons.IH [OF dist, of acc] False r none
      by (auto split: option.splits)
  qed
qed

lemma midnight_inj: "(midnight d = midnight d') = (d = d')"
  by (simp add: midnight_def)

lemma map_of_midnight_rows:
  "map_of (map (\<lambda>d. (midnight d, g d)) ds) (midnight d) = (if d \<in> set ds then Some (g d) else None)"
  by (induction ds) (auto simp: midnight_inj)

lemma distinct_midnight_rows:
  "distinct ds \<Longrightarrow> distinct (map fst (map (\<lambda>d. (midnight d, g d)) ds))"
  by (induction ds) (auto simp: midnight_inj)

text \<open>
  Claim C5, as amended: when the window exists, the mapping that
  \<^verbatim>\<open>get_historical_locked_tokens_over_range\<close> returns has, for a day \<open>d\<close>, the entry
  \<open>midnight d \<mapsto> spec_daily_locked_stake points d\<close> (the sum, over the stakers observed
  on \<open>d\<close>, of the value each was last observed with) if \<open>d\<close> is a day of the window,
  has observed samples and that sum is not zero; otherwise \<open>midnight d\<close> is not a key.
  So a day without samples is absent, and so is a day whose sum is zero.
\<close>

theorem locked_tokens_per_day:
  assumes "query_range today days = Inr w"
  shows "\<exists>m. get_historical_locked_tokens_over_range (influx_locked_stake_query points) today days
               = Inr m
           \<and> distinct (map fst m)
           \<and> (\<forall>d. map_of m (midnight d) =
                 (if day today - (days - 1) \<le> d \<and> d \<le> day today
                     \<and> observed_on points d \<noteq> [] \<and> spec_daily_locked_stake points d \<noteq> 0
                  then Some (spec_daily_locked_stake points d) else None))
           \<and> (\<forall>t. t \<in> fst ` set m \<longrightarrow> (\<exists>d. t = midnight d))"
proof -
  let ?B = "day today - (days - 1)" and ?E = "day today + 1"
  from assms have w: "w = \<lparr>time_ge = midnight ?B, time_lt = midnight ?E\<rparr>"
    by (simp add: query_range_Inr)
  let ?inner = "last_per_staker_and_day points \<lparr>time_ge = midnight ?B, time_lt = midnight ?E\<rparr>"
  let ?rows = "map (\<lambda>d. (midnight d, sum_per_day ?inner d)) [?B .. day today]"
  let ?m = "collect_truthy ?rows []"
  have q: "influx_locked_stake_query points w = Inr ?rows"
    by (simp add: influx_locked_stake_query_def w buckets_midnight)
  have 1: "get_historical_locked_tokens_over_range (influx_locked_stake_query points) today days
             = Inr ?m"
    using locked_tokens_of_window [OF assms, of "influx_locked_stake_query points"] q by simp
  have dr: "distinct (map fst ?rows)"
    by (rule distinct_midnight_rows) simp
  have 2: "distinct (map fst ?m)"
    by (rule collect_truthy_distinct) simp
  have mo: "map_of ?m (midnight d) =
              (case map_of ?rows (midnight d) of
                 None \<Rightarrow> None
               | Some v \<Rightarrow> if truthy v then v else None)" for d
    unfolding map_of_collect_truthy [OF dr, of "[]" "midnight d"]
    by (simp split: option.splits)
  have rw: "map_of ?rows (midnight d) =
              (if ?B \<le> d \<and> d \<le> day today then Some (sum_per_day ?inner d) else None)" for d
    using map_of_midnight_rows [of "sum_per_day ?inner" "[?B .. day today]" d] by simp
  have 3: "map_of ?m (midnight d) =
             (if ?B \<le> d \<and> d \<le> day today
                 \<and> observed_on points d \<noteq> [] \<and> spec_daily_locked_stake points d \<noteq> 0
              then Some (spec_daily_locked_stake points d) else None)" for d
  proof (cases "?B \<le> d \<and> d \<le> day today")
    case True
    have "sum_per_day ?inner d =
        (if observed_on points d = [] then None else Some (spec_daily_locked_stake points d))"
      using True by (intro sum_per_day_eq) simp_all
    then show ?thesis
      unfolding mo rw using True by (simp add: truthy_def)
  next
    case False
    then have "map_of ?rows (midnight d) = None"
      unfolding rw by (simp only: if_False)
    then show ?thesis
      unfolding mo using False by auto
  qed
  have 4: "\<forall>t. t \<in> fst ` set ?m \<longrightarrow> (\<exists>d. t = midnight d)"
    by (auto simp: collect_truthy_keys)
  show ?thesis using 1 2 3 4 by blast
qed

lemma example_locked_tokens:
  "get_historical_locked_tokens_over_range (influx_locked_stake_query example_points)
     example_today 2 = Inr [(midnight 737368, 35005)]"
  by (simp add: locked_tokens_of_window [OF example_window] example_sums truthy_def)

text \<open>
  The example: the 5th maps to 15005 + 20000, the last values of the two stakers
  observed that day.
\<close>

theorem locked_tokens_per_day_witness:
  "query_range example_today 2 = Inr example_clause
   \<and> get_historical_locked_tokens_over_range (influx_locked_stake_query example_points)
       example_today 2 = Inr [(midnight 737368, 35005)]
   \<and> spec_daily_locked_stake example_points 737368 = 35005
   \<and> observed_on example_points 737366 = []"
  using locked_tokens_per_day [OF example_window, of example_points]
  by (simp add: example_window example_locked_tokens)
     (simp add: spec_daily_locked_stake_def stakers_on_def observed_on_def last_observed_def
        example_points_def bucket_def instant_def usec_per_day_def)

text \<open>
  Claim C5 as stated fails: the 4th has an observed sample, the sum of the last values
  of that day is 0, and the mapping does not map the 4th to that sum.
\<close>

theorem zero_sum_day_is_absent:
  "observed_on example_points 737367 \<noteq> []
   \<and> (case get_historical_locked_tokens_over_range (influx_locked_stake_query example_points)
              example_today 2 of
         Inl err \<Rightarrow> None
       | Inr m \<Rightarrow> map_of m (midnight 737367))
       \<noteq> Some (spec_daily_locked_stake example_points 737367)"
  by (simp add: example_locked_tokens midnight_inj)
     (simp add: observed_on_def example_points_def bucket_def instant_def usec_per_day_def)

text \<open>
  The example: the rows of the 4th carry the sum 0 and the count 0, although a sample
  was observed that day, and neither mapping has the 4th as a key.
\<close>

theorem falsy_aggregates_are_omitted_witness:
  "get_historical_locked_tokens_over_range (influx_locked_stake_query example_points)
       example_today 2 = Inr [(midnight 737368, 35005)]
   \<and> get_historical_num_stakers_over_range example_counts example_today 2
       = Inr [(midnight 737368, 2)]
   \<and> observed_on example_points 737367 \<noteq> []
   \<and> midnight 737367 \<notin> fst ` set [(midnight 737368, 35005::real)]"
  using falsy_aggregates_are_omitted
    [of example_today 2 example_clause
        "influx_locked_stake_query example_points"
        "[(midnight 737367, Some 0), (midnight 737368, Some 35005)]"
        example_counts "[(midnight 737367, Some 0), (midnight 737368, Some 2)]"]
  by (simp add: example_window example_sums example_locked_tokens example_counts_def midnight_inj
        num_stakers_of_window [OF example_window] truthy_def)
     (simp add: observed_on_def example_points_def bucket_def instant_def usec_per_day_def)

section \<open>Properties of the crawler\<close>

text \<open>
  Claim C7: when the time series store is unreachable, \<^verbatim>\<open>start()\<close> on a stopped
  crawler raises \<^verbatim>\<open>ConnectionError\<close> and leaves the crawler as it was: \<^verbatim>\<open>is_running\<close>
  is false, the state is \<^verbatim>\<open>STOPPED\<close>, and no task has been added.
\<close>

theorem start_unreachable_stays_stopped:
  assumes "state c = STOPPED"
  shows "start False c = (Inl (ConnectionError ''time series store unreachable''), c)
         \<and> \<not> is_running (snd (start False c))
         \<and> state (snd (start False c)) = STOPPED
         \<and> tasks (snd (start False c)) = tasks c"
  using assms by (simp add: start_def is_running_def)

text \<open>A crawler that was never started: after the failed start it has no task.\<close>

theorem start_unreachable_stays_stopped_witness:
  "state \<lparr>state = STOPPED, tasks = [], store_initialized = False\<rparr> = STOPPED
   \<and> fst (start False \<lparr>state = STOPPED, tasks = [], store_initialized = False\<rparr>)
       = Inl (ConnectionError ''time series store unreachable'')
   \<and> \<not> is_running (snd (start False \<lparr>state = STOPPED, tasks = [], store_initialized = False\<rparr>))
   \<and> tasks (snd (start False \<lparr>state = STOPPED, tasks = [], store_initialized = False\<rparr>)) = []"
  using start_unreachable_stays_stopped [of "\<lparr>state = STOPPED, tasks = [], store_initialized = False\<rparr>"]
  by (simp add: is_running_def)

end
